theory Spec2Isabelle
  imports Complex_Main
begin

section \<open>Data model of capture.py\<close>

text \<open>
  The agents of \<^verbatim>\<open>capture.py\<close> read a board, a game state and a table of
  precomputed distances, all three supplied by the game library. They are modelled by the
  methods the agents call on them. Distances and feature values are Python floats on which
  the code only applies \<^verbatim>\<open>min\<close>, comparisons and conversions of small integers and
  booleans; those are exact, so the values are taken in \<^typ>\<open>real\<close>.
\<close>

record Position =
  row :: int
  col :: int

type_synonym Action = string

definition STOP :: Action where
  "STOP = ''STOP''"

definition MAX_DIST :: real where
  "MAX_DIST = 9999"

text \<open>The board: the four members that \<^verbatim>\<open>game_start\<close> and \<^verbatim>\<open>_build_frontier\<close> read.
  The initial position of an agent is optional, as the field that receives it is.\<close>

record Board =
  width :: int
  height :: int
  is_wall :: "Position \<Rightarrow> bool"
  get_agent_initial_position :: "int \<Rightarrow> Position option"

text \<open>The distance table, by its only query \<^verbatim>\<open>get_distance_default(start, end, default)\<close>.\<close>

record DistancePreComputer =
  get_distance_default :: "Position \<Rightarrow> Position \<Rightarrow> real \<Rightarrow> real"

text \<open>The game state, by the queries of the two feature extractors. The two dictionaries
  from opponent to position are association lists in iteration order; the food set is the
  list of its elements in iteration order.\<close>

record GameState =
  board :: Board
  get_normalized_score :: "int \<Rightarrow> real"
  is_ghost :: "int \<Rightarrow> bool"
  get_agent_actions :: "int \<Rightarrow> Action list"
  get_reverse_action :: "Action \<Rightarrow> Action"
  get_agent_position :: "int \<Rightarrow> Position option"
  get_food :: "int \<Rightarrow> Position list"
  get_nonscared_opponent_positions :: "int \<Rightarrow> (int \<times> Position) list"
  get_invader_positions :: "int \<Rightarrow> (int \<times> Position) list"

type_synonym FeatureDict = "string \<rightharpoonup> real"

text \<open>The fields of \<^verbatim>\<open>StudentCaptureAgent\<close>: \<^verbatim>\<open>agent_index\<close> and \<^verbatim>\<open>weights\<close> come from
  the greedy base class, the other three are set in \<^verbatim>\<open>__init__\<close>.\<close>

record StudentCaptureAgent =
  agent_index :: int
  weights :: "string \<rightharpoonup> real"
  distances :: DistancePreComputer
  frontier :: "Position list"
  initial_position :: "Position option"

section \<open>StudentCaptureAgent\<close>

text \<open>\<^verbatim>\<open>__init__\<close>: the base class supplies the index and the starting weights; a fresh
  \<^verbatim>\<open>DistancePreComputer()\<close> is a parameter.\<close>

definition StudentCaptureAgent_init ::
  "int \<Rightarrow> (string \<rightharpoonup> real) \<Rightarrow> DistancePreComputer \<Rightarrow> StudentCaptureAgent" where
  "StudentCaptureAgent_init idx base_weights fresh =
     \<lparr>agent_index = idx, weights = base_weights, distances = fresh,
      frontier = [], initial_position = None\<rparr>"

text \<open>The loop of \<^verbatim>\<open>_build_frontier\<close> over \<^verbatim>\<open>range(board.height)\<close>: a wall is skipped,
  any other cell is appended.\<close>

fun frontier_loop :: "Board \<Rightarrow> int \<Rightarrow> int list \<Rightarrow> Position list \<Rightarrow> Position list" where
  "frontier_loop b frontier_col [] acc = acc"
| "frontier_loop b frontier_col (r # rs) acc =
     (let position = \<lparr>row = r, col = frontier_col\<rparr>
      in if is_wall b position then frontier_loop b frontier_col rs acc
         else frontier_loop b frontier_col rs (acc @ [position]))"

text \<open>\<^verbatim>\<open>_build_frontier\<close>: \<^verbatim>\<open>//\<close> is floor division and \<^verbatim>\<open>/\<close> true division; both
  tests of \<^verbatim>\<open>self._initial_position is not None\<close> are the two \<open>case\<close>s.\<close>

definition build_frontier :: "StudentCaptureAgent \<Rightarrow> GameState \<Rightarrow> Position list" where
  "build_frontier self state =
     (let b = board state;
          frontier_col = (width b div 2) - 1;
          frontier_col =
            (case initial_position self of
               None \<Rightarrow> frontier_col
             | Some ip \<Rightarrow>
                 if real_of_int (col ip) \<ge> real_of_int (width b) / 2 then width b div 2
                 else frontier_col);
          fr = frontier_loop b frontier_col (map int [0..<nat (height b)]) []
      in case initial_position self of
           None \<Rightarrow> fr
         | Some ip \<Rightarrow> if fr = [] then fr @ [ip] else fr)"

text \<open>\<^verbatim>\<open>game_start\<close>: \<^verbatim>\<open>compute\<close> stands for building a table and running its
  \<^verbatim>\<open>compute(board)\<close>; the frontier is built from the agent that already holds the
  initial position.\<close>

definition game_start ::
  "(Board \<Rightarrow> DistancePreComputer) \<Rightarrow> StudentCaptureAgent \<Rightarrow> GameState \<Rightarrow> StudentCaptureAgent" where
  "game_start compute self initial_state =
     (let self1 = self\<lparr>distances := compute (board initial_state)\<rparr>;
          self2 = self1\<lparr>initial_position :=
                    get_agent_initial_position (board initial_state) (agent_index self1)\<rparr>
      in self2\<lparr>frontier := build_frontier self2 initial_state\<rparr>)"

definition distance ::
  "StudentCaptureAgent \<Rightarrow> Position option \<Rightarrow> Position option \<Rightarrow> real \<Rightarrow> real" where
  "distance self start end_pos dflt =
     (case start of
        None \<Rightarrow> dflt
      | Some s \<Rightarrow>
          (case end_pos of
             None \<Rightarrow> dflt
           | Some e \<Rightarrow> get_distance_default (distances self) s e dflt))"

text \<open>The loop of \<^verbatim>\<open>_closest_distance\<close>, with the running minimum \<^verbatim>\<open>best\<close>.\<close>

fun closest_loop ::
  "StudentCaptureAgent \<Rightarrow> Position option \<Rightarrow> real \<Rightarrow> real \<Rightarrow> Position list \<Rightarrow> real" where
  "closest_loop self start dflt best [] = best"
| "closest_loop self start dflt best (target # targets) =
     closest_loop self start dflt
       (min best (distance self start (Some target) dflt)) targets"

definition closest_distance ::
  "StudentCaptureAgent \<Rightarrow> Position option \<Rightarrow> Position list \<Rightarrow> real \<Rightarrow> real" where
  "closest_distance self start targets dflt =
     (case start of
        None \<Rightarrow> dflt
      | Some s \<Rightarrow> closest_loop self start dflt dflt targets)"

text \<open>Python's \<^verbatim>\<open>min\<close> over a generator keeps the first smallest value; it is only
  reached with a frontier that has a first entry.\<close>

fun min_from :: "real \<Rightarrow> real list \<Rightarrow> real" where
  "min_from best [] = best"
| "min_from best (v # vs) = min_from (if v < best then v else best) vs"

definition distance_to_frontier :: "StudentCaptureAgent \<Rightarrow> Position option \<Rightarrow> real" where
  "distance_to_frontier self position =
     (case position of
        None \<Rightarrow> 0
      | Some p \<Rightarrow>
          (case frontier self of
             [] \<Rightarrow> 0
           | entry # entries \<Rightarrow>
               min_from (distance self position (Some entry) MAX_DIST)
                 (map (\<lambda>e. distance self position (Some e) MAX_DIST) entries)))"

section \<open>AttackerAgent\<close>

definition AttackerAgent_init ::
  "int \<Rightarrow> (string \<rightharpoonup> real) \<Rightarrow> DistancePreComputer \<Rightarrow> StudentCaptureAgent" where
  "AttackerAgent_init idx base_weights fresh =
     (let self = StudentCaptureAgent_init idx base_weights fresh
      in self\<lparr>weights := (weights self)
           (''bias'' \<mapsto> 1,
            ''score'' \<mapsto> 150,
            ''distance_to_food'' \<mapsto> - 2.5,
            ''distance_to_ghost'' \<mapsto> 1.8,
            ''ghost_near'' \<mapsto> - 200,
            ''stopped'' \<mapsto> - 80,
            ''reverse'' \<mapsto> - 4,
            ''on_home_side'' \<mapsto> - 10)\<rparr>)"

definition attacker_compute_features ::
  "StudentCaptureAgent \<Rightarrow> GameState \<Rightarrow> Action \<Rightarrow> FeatureDict" where
  "attacker_compute_features self state action =
     (let features = Map.empty;
          features = features(''bias'' \<mapsto> 1);
          features = features(''score'' \<mapsto> get_normalized_score state (agent_index self));
          features = features(''stopped'' \<mapsto> of_bool (action = STOP));
          features = features(''on_home_side'' \<mapsto> of_bool (is_ghost state (agent_index self)));
          features = features(''reverse'' \<mapsto> 0);
          agent_actions = get_agent_actions state (agent_index self);
          features =
            (if length agent_actions > 1
             then features(''reverse'' \<mapsto> of_bool (action =
                    get_reverse_action state (agent_actions ! (length agent_actions - 2))))
             else features)
      in case get_agent_position state (agent_index self) of
           None \<Rightarrow> features
         | Some position \<Rightarrow>
             (let food = get_food state (agent_index self);
                  features =
                    (if length food > 0
                     then features(''distance_to_food'' \<mapsto>
                            min (closest_distance self (Some position) food MAX_DIST) 20)
                     else features(''distance_to_food'' \<mapsto> 0));
                  ghosts = get_nonscared_opponent_positions state (agent_index self);
                  ghost_distance =
                    closest_distance self (Some position) (map snd ghosts) MAX_DIST;
                  capped_ghost_distance = min ghost_distance 12;
                  features = features(''distance_to_ghost'' \<mapsto> capped_ghost_distance);
                  features = features(''ghost_near'' \<mapsto> of_bool (ghost_distance \<le> 3))
              in features))"

section \<open>GuardAgent\<close>

definition GuardAgent_init ::
  "int \<Rightarrow> (string \<rightharpoonup> real) \<Rightarrow> DistancePreComputer \<Rightarrow> StudentCaptureAgent" where
  "GuardAgent_init idx base_weights fresh =
     (let self = StudentCaptureAgent_init idx base_weights fresh
      in self\<lparr>weights := (weights self)
           (''bias'' \<mapsto> 1,
            ''on_home_side'' \<mapsto> 60,
            ''stopped'' \<mapsto> - 60,
            ''reverse'' \<mapsto> - 3,
            ''num_invaders'' \<mapsto> - 1200,
            ''distance_to_invader'' \<mapsto> - 25,
            ''frontier_distance'' \<mapsto> - 2.5)\<rparr>)"

definition guard_compute_features ::
  "StudentCaptureAgent \<Rightarrow> GameState \<Rightarrow> Action \<Rightarrow> FeatureDict" where
  "guard_compute_features self state action =
     (let features = Map.empty;
          features = features(''bias'' \<mapsto> 1);
          features = features(''stopped'' \<mapsto> of_bool (action = STOP));
          features = features(''on_home_side'' \<mapsto> of_bool (is_ghost state (agent_index self)));
          features = features(''reverse'' \<mapsto> 0);
          agent_actions = get_agent_actions state (agent_index self);
          features =
            (if length agent_actions > 1
             then features(''reverse'' \<mapsto> of_bool (action =
                    get_reverse_action state (agent_actions ! (length agent_actions - 2))))
             else features)
      in case get_agent_position state (agent_index self) of
           None \<Rightarrow> features
         | Some position \<Rightarrow>
             (let invaders = get_invader_positions state (agent_index self);
                  features = features(''num_invaders'' \<mapsto> real (length invaders))
              in if length invaders > 0
                 then (let d = closest_distance self (Some position) (map snd invaders) MAX_DIST;
                           features = features(''distance_to_invader'' \<mapsto> d)
                       in features(''frontier_distance'' \<mapsto> 0))
                 else (let features = features(''distance_to_invader'' \<mapsto> 0)
                       in features(''frontier_distance'' \<mapsto>
                            distance_to_frontier self (Some position)))))"

section \<open>The frontier as the specification words it\<close>

text \<open>The frontier column of the specification: the midline column \<open>width // 2\<close> for an
  agent that starts in the right half (\<open>initial_col >= width / 2\<close>), the column before it
  otherwise.\<close>

definition spec_frontier_col :: "int \<Rightarrow> int \<Rightarrow> int" where
  "spec_frontier_col w initial_col =
     (if real_of_int initial_col \<ge> real_of_int w / 2 then w div 2 else w div 2 - 1)"

text \<open>The open cells of a column of the specification: every row from 0 to height - 1 at
  that column, the non-wall cells kept in row order.\<close>

definition spec_open_cells :: "Board \<Rightarrow> int \<Rightarrow> Position list" where
  "spec_open_cells b c =
     filter (\<lambda>p. \<not> is_wall b p) (map (\<lambda>r. \<lparr>row = r, col = c\<rparr>) (map int [0..<nat (height b)]))"

section \<open>Concrete inputs\<close>

text \<open>A board of width 10 and height 3 whose only wall is at row 1 of column 4; a board of
  the same size whose column 4 is all walls; and a table that
  returns the Manhattan distance.\<close>

definition open_wall :: "Position \<Rightarrow> bool" where
  "open_wall p = (row p = 1 \<and> col p = 4)"

definition column_wall :: "Position \<Rightarrow> bool" where
  "column_wall p = (col p = 4)"

definition start_left :: "int \<Rightarrow> Position option" where
  "start_left i = Some \<lparr>row = 1, col = 2\<rparr>"

definition start_right :: "int \<Rightarrow> Position option" where
  "start_right i = Some \<lparr>row = 1, col = 7\<rparr>"

definition start_none :: "int \<Rightarrow> Position option" where
  "start_none i = None"

definition manhattan :: "Position \<Rightarrow> Position \<Rightarrow> real \<Rightarrow> real" where
  "manhattan s e dflt = real_of_int (\<bar>row s - row e\<bar> + \<bar>col s - col e\<bar>)"

definition manhattan_table :: "Board \<Rightarrow> DistancePreComputer" where
  "manhattan_table b = \<lparr>get_distance_default = manhattan\<rparr>"

definition board_left :: Board where
  "board_left = \<lparr>width = 10, height = 3, is_wall = open_wall,
                 get_agent_initial_position = start_left\<rparr>"

definition board_right :: Board where
  "board_right = \<lparr>width = 10, height = 3, is_wall = open_wall,
                  get_agent_initial_position = start_right\<rparr>"

definition board_walled :: Board where
  "board_walled = \<lparr>width = 10, height = 3, is_wall = column_wall,
                   get_agent_initial_position = start_left\<rparr>"

definition board_walled_unplaced :: Board where
  "board_walled_unplaced = \<lparr>width = 10, height = 3, is_wall = column_wall,
                            get_agent_initial_position = start_none\<rparr>"

definition no_history :: "int \<Rightarrow> Action list" where
  "no_history i = []"

definition north_south :: "int \<Rightarrow> Action list" where
  "north_south i = [''NORTH'', ''SOUTH'']"

definition opposite :: "Action \<Rightarrow> Action" where
  "opposite a =
     (if a = ''NORTH'' then ''SOUTH'' else if a = ''SOUTH'' then ''NORTH''
      else if a = ''EAST'' then ''WEST'' else if a = ''WEST'' then ''EAST'' else a)"

definition zero_score :: "int \<Rightarrow> real" where
  "zero_score i = 0"

definition never_ghost :: "int \<Rightarrow> bool" where
  "never_ghost i = False"

text \<open>A game state on a board, given what agent 0 sees: its own position, the food, the
  non-scared opponents and the invaders. Every agent index is answered alike.\<close>

definition seen_state ::
  "Board \<Rightarrow> Position option \<Rightarrow> Position list \<Rightarrow> (int \<times> Position) list \<Rightarrow>
   (int \<times> Position) list \<Rightarrow> GameState" where
  "seen_state b pos food ghosts invaders =
     \<lparr>board = b, get_normalized_score = zero_score, is_ghost = never_ghost,
      get_agent_actions = north_south, get_reverse_action = opposite,
      get_agent_position = (\<lambda>i. pos), get_food = (\<lambda>i. food),
      get_nonscared_opponent_positions = (\<lambda>i. ghosts),
      get_invader_positions = (\<lambda>i. invaders)\<rparr>"

definition pos_at :: "int \<Rightarrow> int \<Rightarrow> Position" where
  "pos_at r c = \<lparr>row = r, col = c\<rparr>"

definition opening_state :: "Board \<Rightarrow> GameState" where
  "opening_state b = seen_state b (get_agent_initial_position b 0) [] [] []"

text \<open>Agents with index 0 and no inherited weights, after \<^verbatim>\<open>game_start\<close> on a board.\<close>

definition fresh_attacker :: "Board \<Rightarrow> StudentCaptureAgent" where
  "fresh_attacker b = AttackerAgent_init 0 Map.empty (manhattan_table b)"

definition fresh_guard :: "Board \<Rightarrow> StudentCaptureAgent" where
  "fresh_guard b = GuardAgent_init 0 Map.empty (manhattan_table b)"

definition attacker_on :: "Board \<Rightarrow> StudentCaptureAgent" where
  "attacker_on b = game_start manhattan_table (fresh_attacker b) (opening_state b)"

definition guard_on :: "Board \<Rightarrow> StudentCaptureAgent" where
  "guard_on b = game_start manhattan_table (fresh_guard b) (opening_state b)"

definition board_wide :: Board where
  "board_wide = \<lparr>width = 40, height = 3, is_wall = open_wall,
                 get_agent_initial_position = start_left\<rparr>"

text \<open>What agent 0 may see from row 1, column 2 of the small board: nothing; a non-scared
  opponent at distance 3, or at distance 4; food at distance 5; an invader at distance 2.
  On the wide board, food at distances 25 and 31. And a state in which agent 0 has no
  position although food and opponents are around.\<close>

definition nothing_seen :: GameState where
  "nothing_seen = seen_state board_left (Some (pos_at 1 2)) [] [] []"

definition ghost_three_away :: GameState where
  "ghost_three_away = seen_state board_left (Some (pos_at 1 2)) [] [(1, pos_at 1 5)] []"

definition ghost_four_away :: GameState where
  "ghost_four_away = seen_state board_left (Some (pos_at 1 2)) [] [(1, pos_at 1 6)] []"

definition food_close :: GameState where
  "food_close = seen_state board_left (Some (pos_at 1 2)) [pos_at 1 7] [] []"

definition food_far :: GameState where
  "food_far = seen_state board_wide (Some (pos_at 1 2)) [pos_at 0 32, pos_at 1 27] [] []"

definition invader_seen :: GameState where
  "invader_seen = seen_state board_left (Some (pos_at 1 2)) [] [] [(1, pos_at 2 1)]"

definition eaten :: GameState where
  "eaten = seen_state board_left None [pos_at 1 7] [(1, pos_at 1 5)] [(3, pos_at 2 1)]"

section \<open>Loops as minima and filters\<close>

lemma frontier_loop_filter:
  "frontier_loop b c rs acc =
     acc @ filter (\<lambda>p. \<not> is_wall b p) (map (\<lambda>r. \<lparr>row = r, col = c\<rparr>) rs)"
  by (induction rs arbitrary: acc) (simp_all add: Let_def)

lemma Min_insert_min:
  fixes a b :: real
  assumes "finite S"
  shows "Min (insert (min a b) S) = Min (insert a (insert b S))"
proof (cases "S = {}")
  case True
  then show ?thesis by simp
next
  case False
  with assms show ?thesis by (simp add: min.assoc)
qed

lemma closest_loop_Min:
  "closest_loop self start d best ts =
     Min (insert best ((\<lambda>t. distance self start (Some t) d) ` set ts))"
proof (induction ts arbitrary: best)
  case Nil
  show ?case by simp
next
  case (Cons t ts)
  let ?f = "\<lambda>t. distance self start (Some t) d"
  have "closest_loop self start d best (t # ts) = Min (insert (min best (?f t)) (?f ` set ts))"
    by (simp add: Cons.IH)
  also have "\<dots> = Min (insert best (insert (?f t) (?f ` set ts)))"
    by (simp add: Min_insert_min)
  finally show ?case by simp
qed

lemma min_from_Min: "min_from best vs = Min (insert best (set vs))"
proof (induction vs arbitrary: best)
  case Nil
  show ?case by simp
next
  case (Cons v vs)
  have "(if v < best then v else best) = min best v" by (simp add: min_def)
  then have "min_from best (v # vs) = Min (insert (min best v) (set vs))"
    by (simp add: Cons.IH)
  also have "\<dots> = Min (insert best (insert v (set vs)))"
    by (simp add: Min_insert_min)
  finally show ?case by simp
qed

lemma closest_distance_Min:
  "closest_distance self (Some p) ts d =
     Min (insert d ((\<lambda>t. distance self (Some p) (Some t) d) ` set ts))"
  by (simp add: closest_distance_def closest_loop_Min)

section \<open>The frontier\<close>

lemma build_frontier_placed:
  assumes "initial_position self = Some ip"
  shows "build_frontier self st =
           (let cells = spec_open_cells (board st) (spec_frontier_col (width (board st)) (col ip))
            in if cells = [] then [ip] else cells)"
  using assms
  by (simp add: build_frontier_def spec_open_cells_def spec_frontier_col_def
      frontier_loop_filter Let_def)

lemma build_frontier_unplaced:
  assumes "initial_position self = None"
  shows "build_frontier self st = spec_open_cells (board st) (width (board st) div 2 - 1)"
  using assms
  by (simp add: build_frontier_def spec_open_cells_def frontier_loop_filter Let_def)

lemma game_start_frontier:
  "frontier (game_start compute self st) =
     build_frontier
       (self\<lparr>distances := compute (board st),
             initial_position := get_agent_initial_position (board st) (agent_index self)\<rparr>) st"
  by (simp add: game_start_def Let_def)

lemmas concrete_defs =
  guard_on_def attacker_on_def fresh_guard_def fresh_attacker_def
  opening_state_def seen_state_def game_start_def
  GuardAgent_init_def AttackerAgent_init_def StudentCaptureAgent_init_def
  build_frontier_def board_left_def board_right_def
  board_walled_def board_walled_unplaced_def start_left_def start_right_def start_none_def
  open_wall_def column_wall_def manhattan_table_def pos_at_def

lemma frontier_guard_left: "frontier (guard_on board_left) = [pos_at 0 4, pos_at 2 4]"
  by (simp add: concrete_defs Let_def upt_rec)

lemma frontier_guard_unplaced: "frontier (guard_on board_walled_unplaced) = []"
  by (simp add: concrete_defs Let_def upt_rec)

text \<open>
  C5, as amended. On a board that gives the agent an initial position, the frontier cached
  by \<^verbatim>\<open>game_start\<close> is not empty: it is the list of the non-wall cells of the frontier
  column in row order, and the one-element list of the initial position when that column
  has no open cell.
\<close>

theorem game_start_frontier_nonempty:
  assumes "get_agent_initial_position (board st) (agent_index self) = Some ip"
  shows "frontier (game_start compute self st) \<noteq> []
         \<and> frontier (game_start compute self st) =
             (let cells = spec_open_cells (board st)
                            (spec_frontier_col (width (board st)) (col ip))
              in if cells = [] then [ip] else cells)"
proof -
  let ?self2 = "self\<lparr>distances := compute (board st),
      initial_position := get_agent_initial_position (board st) (agent_index self)\<rparr>"
  have ip: "initial_position ?self2 = Some ip"
    using assms by simp
  have eq: "frontier (game_start compute self st) =
      (let cells = spec_open_cells (board st) (spec_frontier_col (width (board st)) (col ip))
       in if cells = [] then [ip] else cells)"
    unfolding game_start_frontier by (rule build_frontier_placed [OF ip])
  then have "frontier (game_start compute self st) \<noteq> []"
    by (simp add: Let_def)
  with eq show ?thesis by blast
qed

theorem game_start_frontier_nonempty_witness:
  "get_agent_initial_position (board (opening_state board_walled))
      (agent_index (fresh_guard board_walled)) = Some (pos_at 1 2)
   \<and> spec_open_cells board_walled 4 = []
   \<and> frontier (game_start manhattan_table (fresh_guard board_walled)
        (opening_state board_walled)) = [pos_at 1 2]
   \<and> get_agent_initial_position (board (opening_state board_left))
      (agent_index (fresh_guard board_left)) = Some (pos_at 1 2)
   \<and> frontier (game_start manhattan_table (fresh_guard board_left)
        (opening_state board_left)) = [pos_at 0 4, pos_at 2 4]"
proof -
  have h1: "get_agent_initial_position (board (opening_state board_walled))
      (agent_index (fresh_guard board_walled)) = Some (pos_at 1 2)"
    by (simp add: concrete_defs)
  have h2: "get_agent_initial_position (board (opening_state board_left))
      (agent_index (fresh_guard board_left)) = Some (pos_at 1 2)"
    by (simp add: concrete_defs)
  show ?thesis
    using game_start_frontier_nonempty [OF h1, of manhattan_table]
      game_start_frontier_nonempty [OF h2, of manhattan_table] h1 h2
    by (simp add: spec_open_cells_def spec_frontier_col_def opening_state_def seen_state_def
        board_walled_def board_left_def column_wall_def open_wall_def pos_at_def upt_rec)
qed

text \<open>The claim as written, for every board, fails on a board whose frontier column is
  all walls and which gives agent 0 no initial position: the guard of line 46 leaves the
  frontier empty.\<close>

theorem game_start_frontier_empty_counterexample:
  "frontier (game_start manhattan_table (fresh_guard board_walled_unplaced)
      (opening_state board_walled_unplaced)) = []"
  by (simp add: concrete_defs Let_def upt_rec)

section \<open>Distance queries\<close>

text \<open>
  C7. \<^verbatim>\<open>_distance_to_frontier\<close> returns 0.0 when the position is undefined or the cached
  frontier is empty; otherwise it returns the minimum over the frontier cells of
  \<^verbatim>\<open>_distance(position, cell)\<close> taken with the default \<^verbatim>\<open>MAX_DIST\<close>, which is 9999.0.
\<close>

theorem distance_to_frontier_min:
  "distance_to_frontier self None = 0
   \<and> (frontier self = [] \<longrightarrow> distance_to_frontier self position = 0)
   \<and> (frontier self \<noteq> [] \<longrightarrow>
        distance_to_frontier self (Some p) =
          Min ((\<lambda>cell. distance self (Some p) (Some cell) MAX_DIST) ` set (frontier self)))
   \<and> MAX_DIST = 9999"
  by (auto simp: distance_to_frontier_def min_from_Min MAX_DIST_def
      split: option.splits list.splits)

theorem distance_to_frontier_min_witness:
  "frontier (guard_on board_walled_unplaced) = []
   \<and> distance_to_frontier (guard_on board_walled_unplaced) (Some (pos_at 1 2)) = 0
   \<and> frontier (guard_on board_left) \<noteq> []
   \<and> distance_to_frontier (guard_on board_left) (Some (pos_at 1 2)) = 3"
proof -
  have d: "distances (guard_on board_left) = manhattan_table board_left"
    by (simp add: guard_on_def game_start_def manhattan_table_def Let_def)
  show ?thesis
    using distance_to_frontier_min [of "guard_on board_walled_unplaced" "Some (pos_at 1 2)"]
      distance_to_frontier_min [of "guard_on board_left" _ "pos_at 1 2"]
    by (simp add: frontier_guard_left frontier_guard_unplaced d distance_def
        manhattan_table_def manhattan_def pos_at_def)
qed

text \<open>
  C8. \<^verbatim>\<open>_distance\<close> returns the supplied default when the start or the end is undefined,
  whatever the table holds; \<^verbatim>\<open>_closest_distance\<close> returns the supplied default when the
  start is undefined or there is no target.
\<close>

theorem distance_undefined_returns_default:
  "distance self None end_pos dflt = dflt
   \<and> distance self start None dflt = dflt
   \<and> closest_distance self None targets dflt = dflt
   \<and> closest_distance self start [] dflt = dflt"
  by (simp add: distance_def closest_distance_def split: option.splits)

section \<open>Feature extraction\<close>

lemma attacker_dom:
  "dom (attacker_compute_features self st a) =
     (if get_agent_position st (agent_index self) = None
      then {''bias'', ''score'', ''stopped'', ''on_home_side'', ''reverse''}
      else {''bias'', ''score'', ''stopped'', ''on_home_side'', ''reverse'',
            ''distance_to_food'', ''distance_to_ghost'', ''ghost_near''})"
  by (auto simp: attacker_compute_features_def Let_def split: option.splits if_splits)

lemma guard_dom:
  "dom (guard_compute_features self st a) =
     (if get_agent_position st (agent_index self) = None
      then {''bias'', ''stopped'', ''on_home_side'', ''reverse''}
      else {''bias'', ''stopped'', ''on_home_side'', ''reverse'',
            ''num_invaders'', ''distance_to_invader'', ''frontier_distance''})"
  by (auto simp: guard_compute_features_def Let_def split: option.splits if_splits)

lemma attacker_weights_dom:
  "dom (weights (AttackerAgent_init idx w0 fresh)) =
     dom w0 \<union> {''bias'', ''score'', ''distance_to_food'', ''distance_to_ghost'', ''ghost_near'',
       ''stopped'', ''reverse'', ''on_home_side''}"
  by (auto simp: AttackerAgent_init_def StudentCaptureAgent_init_def Let_def)

lemma guard_weights_dom:
  "dom (weights (GuardAgent_init idx w0 fresh)) =
     dom w0 \<union> {''bias'', ''on_home_side'', ''stopped'', ''reverse'', ''num_invaders'',
       ''distance_to_invader'', ''frontier_distance''}"
  by (auto simp: GuardAgent_init_def StudentCaptureAgent_init_def Let_def)

lemma attacker_ghost:
  assumes "get_agent_position st (agent_index self) = Some p"
  shows "attacker_compute_features self st a ''ghost_near'' =
           Some (of_bool (closest_distance self (Some p)
             (map snd (get_nonscared_opponent_positions st (agent_index self))) MAX_DIST \<le> 3))"
    and "attacker_compute_features self st a ''distance_to_ghost'' =
           Some (min (closest_distance self (Some p)
             (map snd (get_nonscared_opponent_positions st (agent_index self))) MAX_DIST) 12)"
  using assms by (simp_all add: attacker_compute_features_def Let_def)

lemma attacker_food:
  assumes "get_agent_position st (agent_index self) = Some p"
  shows "attacker_compute_features self st a ''distance_to_food'' =
           Some (if get_food st (agent_index self) = [] then 0
                 else min (closest_distance self (Some p) (get_food st (agent_index self)) MAX_DIST) 20)"
  using assms by (simp add: attacker_compute_features_def Let_def)

lemma guard_invaders:
  assumes "get_agent_position st (agent_index self) = Some p"
  shows "guard_compute_features self st a ''num_invaders'' =
           Some (real (length (get_invader_positions st (agent_index self))))"
    and "guard_compute_features self st a ''distance_to_invader'' =
           Some (if get_invader_positions st (agent_index self) = [] then 0
                 else closest_distance self (Some p)
                        (map snd (get_invader_positions st (agent_index self))) MAX_DIST)"
    and "guard_compute_features self st a ''frontier_distance'' =
           Some (if get_invader_positions st (agent_index self) = []
                 then distance_to_frontier self (Some p) else 0)"
  using assms by (simp_all add: guard_compute_features_def Let_def)

lemmas seen_defs =
  nothing_seen_def ghost_three_away_def ghost_four_away_def food_close_def food_far_def
  invader_seen_def eaten_def seen_state_def

lemma agents_on:
  "agent_index (attacker_on b) = 0"
  "agent_index (guard_on b) = 0"
  "distances (attacker_on b) = \<lparr>get_distance_default = manhattan\<rparr>"
  "distances (guard_on b) = \<lparr>get_distance_default = manhattan\<rparr>"
  "initial_position (guard_on b) = get_agent_initial_position b 0"
  by (simp_all add: attacker_on_def guard_on_def fresh_attacker_def fresh_guard_def
      game_start_def AttackerAgent_init_def GuardAgent_init_def StudentCaptureAgent_init_def
      manhattan_table_def opening_state_def seen_state_def Let_def)

lemma manhattan_closest:
  "closest_distance (attacker_on b) (Some p) ts d =
     closest_loop (attacker_on b) (Some p) d d ts"
  "closest_distance (guard_on b) (Some p) ts d =
     closest_loop (guard_on b) (Some p) d d ts"
  "distance (attacker_on b) (Some p) (Some q) d = manhattan p q d"
  "distance (guard_on b) (Some p) (Some q) d = manhattan p q d"
  by (simp_all add: closest_distance_def distance_def agents_on)

text \<open>
  C1. When the attacker has a position, \<^verbatim>\<open>ghost_near\<close> is 1.0 exactly when the closest
  distance to the visible non-scared opponents, taken with the default
  \<^verbatim>\<open>MAX_DIST\<close> = 9999.0 and not capped, is at most 3.0; the capped value only goes into
  \<^verbatim>\<open>distance_to_ghost\<close>.
\<close>

theorem ghost_near_uncapped:
  assumes "get_agent_position st (agent_index self) = Some p"
  shows "(let ghost_distance = closest_distance self (Some p)
                 (map snd (get_nonscared_opponent_positions st (agent_index self))) MAX_DIST;
              features = attacker_compute_features self st a
          in features ''ghost_near'' = Some (of_bool (ghost_distance \<le> 3))
             \<and> (features ''ghost_near'' = Some 1) = (ghost_distance \<le> 3)
             \<and> features ''distance_to_ghost'' = Some (min ghost_distance 12))
         \<and> MAX_DIST = 9999"
  using assms by (simp add: attacker_ghost Let_def MAX_DIST_def)

theorem ghost_near_uncapped_witness:
  "get_agent_position ghost_three_away (agent_index (attacker_on board_left)) = Some (pos_at 1 2)
   \<and> closest_distance (attacker_on board_left) (Some (pos_at 1 2))
        (map snd (get_nonscared_opponent_positions ghost_three_away
           (agent_index (attacker_on board_left)))) MAX_DIST = 3
   \<and> attacker_compute_features (attacker_on board_left) ghost_three_away STOP ''ghost_near''
        = Some 1
   \<and> get_agent_position ghost_four_away (agent_index (attacker_on board_left)) = Some (pos_at 1 2)
   \<and> closest_distance (attacker_on board_left) (Some (pos_at 1 2))
        (map snd (get_nonscared_opponent_positions ghost_four_away
           (agent_index (attacker_on board_left)))) MAX_DIST = 4
   \<and> attacker_compute_features (attacker_on board_left) ghost_four_away STOP ''ghost_near''
        = Some 0"
proof -
  have h1: "get_agent_position ghost_three_away (agent_index (attacker_on board_left))
      = Some (pos_at 1 2)"
    by (simp add: seen_defs)
  have h2: "get_agent_position ghost_four_away (agent_index (attacker_on board_left))
      = Some (pos_at 1 2)"
    by (simp add: seen_defs)
  show ?thesis
    using ghost_near_uncapped [OF h1, of STOP] ghost_near_uncapped [OF h2, of STOP] h1 h2
    by (simp add: Let_def seen_defs agents_on manhattan_closest manhattan_def pos_at_def)
qed

text \<open>
  C10. When the attacker has a position and sees no non-scared opponent,
  \<^verbatim>\<open>distance_to_ghost\<close> is exactly 12.0 and \<^verbatim>\<open>ghost_near\<close> is 0.0.
\<close>

theorem unseen_ghost_at_cap:
  assumes "get_agent_position st (agent_index self) = Some p"
    and "get_nonscared_opponent_positions st (agent_index self) = []"
  shows "attacker_compute_features self st a ''distance_to_ghost'' = Some 12
         \<and> attacker_compute_features self st a ''ghost_near'' = Some 0"
  using assms by (simp add: attacker_ghost closest_distance_def MAX_DIST_def)

theorem unseen_ghost_at_cap_witness:
  "get_agent_position nothing_seen (agent_index (attacker_on board_left)) = Some (pos_at 1 2)
   \<and> get_nonscared_opponent_positions nothing_seen (agent_index (attacker_on board_left)) = []
   \<and> attacker_compute_features (attacker_on board_left) nothing_seen STOP
        ''distance_to_ghost'' = Some 12
   \<and> attacker_compute_features (attacker_on board_left) nothing_seen STOP
        ''ghost_near'' = Some 0"
proof -
  have h1: "get_agent_position nothing_seen (agent_index (attacker_on board_left))
      = Some (pos_at 1 2)"
    by (simp add: seen_defs)
  have h2: "get_nonscared_opponent_positions nothing_seen
      (agent_index (attacker_on board_left)) = []"
    by (simp add: seen_defs)
  show ?thesis
    using unseen_ghost_at_cap [OF h1 h2, of STOP] h1 h2 by simp
qed

lemma closest_distance_nonneg:
  assumes "0 \<le> d" and "\<forall>t\<in>set ts. 0 \<le> distance self (Some p) (Some t) d"
  shows "0 \<le> closest_distance self (Some p) ts d"
  using assms by (simp add: closest_distance_Min)

text \<open>
  C3. When the attacker has a position: with food visible, \<^verbatim>\<open>distance_to_food\<close> is the
  closest food distance capped at 20.0, which lies between 0.0 and 20.0 when the table
  returns no negative value for the food; with no food visible it is 0.0; and a closest
  food distance of 25 gives exactly 20.0.
\<close>

theorem distance_to_food_capped:
  assumes "get_agent_position st (agent_index self) = Some p"
  shows "(let food = get_food st (agent_index self);
              features = attacker_compute_features self st a
          in (food \<noteq> [] \<longrightarrow>
                features ''distance_to_food'' =
                  Some (min (closest_distance self (Some p) food MAX_DIST) 20))
             \<and> (food \<noteq> []
                  \<and> (\<forall>t\<in>set food. 0 \<le> get_distance_default (distances self) p t MAX_DIST) \<longrightarrow>
                (\<exists>v. features ''distance_to_food'' = Some v \<and> 0 \<le> v \<and> v \<le> 20))
             \<and> (food = [] \<longrightarrow> features ''distance_to_food'' = Some 0)
             \<and> (food \<noteq> [] \<and> closest_distance self (Some p) food MAX_DIST = 25 \<longrightarrow>
                features ''distance_to_food'' = Some 20))"
proof -
  let ?food = "get_food st (agent_index self)"
  let ?cd = "closest_distance self (Some p) ?food MAX_DIST"
  have nonneg: "0 \<le> ?cd"
    if "\<forall>t\<in>set ?food. 0 \<le> get_distance_default (distances self) p t MAX_DIST"
    using that by (intro closest_distance_nonneg) (simp_all add: MAX_DIST_def distance_def)
  show ?thesis
    using nonneg by (simp add: attacker_food [OF assms] Let_def)
qed

theorem distance_to_food_capped_witness:
  "get_agent_position food_far (agent_index (attacker_on board_wide)) = Some (pos_at 1 2)
   \<and> get_food food_far (agent_index (attacker_on board_wide)) \<noteq> []
   \<and> closest_distance (attacker_on board_wide) (Some (pos_at 1 2))
        (get_food food_far (agent_index (attacker_on board_wide))) MAX_DIST = 25
   \<and> attacker_compute_features (attacker_on board_wide) food_far STOP ''distance_to_food''
        = Some 20
   \<and> get_agent_position food_close (agent_index (attacker_on board_left)) = Some (pos_at 1 2)
   \<and> get_food food_close (agent_index (attacker_on board_left)) \<noteq> []
   \<and> attacker_compute_features (attacker_on board_left) food_close STOP ''distance_to_food''
        = Some 5
   \<and> get_agent_position nothing_seen (agent_index (attacker_on board_left)) = Some (pos_at 1 2)
   \<and> get_food nothing_seen (agent_index (attacker_on board_left)) = []
   \<and> attacker_compute_features (attacker_on board_left) nothing_seen STOP ''distance_to_food''
        = Some 0"
proof -
  have h1: "get_agent_position food_far (agent_index (attacker_on board_wide))
      = Some (pos_at 1 2)"
    by (simp add: seen_defs)
  have h2: "get_agent_position food_close (agent_index (attacker_on board_left))
      = Some (pos_at 1 2)"
    by (simp add: seen_defs)
  have h3: "get_agent_position nothing_seen (agent_index (attacker_on board_left))
      = Some (pos_at 1 2)"
    by (simp add: seen_defs)
  show ?thesis
    using distance_to_food_capped [OF h1, of STOP] distance_to_food_capped [OF h2, of STOP]
      distance_to_food_capped [OF h3, of STOP] h1 h2 h3
    by (simp add: Let_def seen_defs agents_on manhattan_closest manhattan_def pos_at_def
        MAX_DIST_def)
qed

lemma distance_to_frontier_nonempty:
  assumes "frontier self \<noteq> []"
  shows "distance_to_frontier self (Some p) =
           Min ((\<lambda>cell. distance self (Some p) (Some cell) MAX_DIST) ` set (frontier self))"
  using assms by (auto simp: distance_to_frontier_def min_from_Min split: list.splits)

text \<open>
  C2. When the guard has a position, \<^verbatim>\<open>num_invaders\<close> is the number of invaders. If it
  is positive, \<^verbatim>\<open>frontier_distance\<close> is 0.0 and \<^verbatim>\<open>distance_to_invader\<close> is the closest
  distance from the position to an invader. If it is zero, \<^verbatim>\<open>distance_to_invader\<close> is
  0.0 and \<^verbatim>\<open>frontier_distance\<close> is the distance from the position to the frontier, the
  distance to its nearest cell when it has one.
\<close>

theorem guard_pursuit_exclusive:
  assumes "get_agent_position st (agent_index self) = Some p"
  shows "(let invaders = map snd (get_invader_positions st (agent_index self));
              features = guard_compute_features self st a
          in \<exists>n. features ''num_invaders'' = Some n \<and> n = real (length invaders)
               \<and> (n > 0 \<longrightarrow>
                     features ''frontier_distance'' = Some 0
                     \<and> features ''distance_to_invader'' =
                         Some (closest_distance self (Some p) invaders MAX_DIST)
                     \<and> closest_distance self (Some p) invaders MAX_DIST =
                         Min (insert MAX_DIST
                           ((\<lambda>t. distance self (Some p) (Some t) MAX_DIST) ` set invaders)))
               \<and> (n = 0 \<longrightarrow>
                     features ''distance_to_invader'' = Some 0
                     \<and> features ''frontier_distance'' = Some (distance_to_frontier self (Some p))
                     \<and> (frontier self \<noteq> [] \<longrightarrow>
                          distance_to_frontier self (Some p) =
                            Min ((\<lambda>cell. distance self (Some p) (Some cell) MAX_DIST) `
                              set (frontier self)))))"
  by (simp add: guard_invaders [OF assms] Let_def closest_distance_Min
      distance_to_frontier_nonempty)

theorem guard_pursuit_exclusive_witness:
  "get_agent_position invader_seen (agent_index (guard_on board_left)) = Some (pos_at 1 2)
   \<and> guard_compute_features (guard_on board_left) invader_seen STOP ''num_invaders'' = Some 1
   \<and> guard_compute_features (guard_on board_left) invader_seen STOP ''frontier_distance''
        = Some 0
   \<and> guard_compute_features (guard_on board_left) invader_seen STOP ''distance_to_invader''
        = Some 2
   \<and> get_agent_position nothing_seen (agent_index (guard_on board_left)) = Some (pos_at 1 2)
   \<and> guard_compute_features (guard_on board_left) nothing_seen STOP ''num_invaders'' = Some 0
   \<and> guard_compute_features (guard_on board_left) nothing_seen STOP ''distance_to_invader''
        = Some 0
   \<and> frontier (guard_on board_left) \<noteq> []
   \<and> guard_compute_features (guard_on board_left) nothing_seen STOP ''frontier_distance''
        = Some 3"
proof -
  have h1: "get_agent_position invader_seen (agent_index (guard_on board_left))
      = Some (pos_at 1 2)"
    by (simp add: seen_defs)
  have h2: "get_agent_position nothing_seen (agent_index (guard_on board_left))
      = Some (pos_at 1 2)"
    by (simp add: seen_defs)
  show ?thesis
    using guard_pursuit_exclusive [OF h1, of STOP] guard_pursuit_exclusive [OF h2, of STOP] h1 h2
    by (simp add: Let_def seen_defs agents_on manhattan_closest manhattan_def pos_at_def
        MAX_DIST_def frontier_guard_left distance_to_frontier_def)
qed

lemma attacker_unplaced_absent:
  assumes "get_agent_position st (agent_index self) = None"
  shows "attacker_compute_features self st a ''distance_to_food'' = None"
    and "attacker_compute_features self st a ''distance_to_ghost'' = None"
    and "attacker_compute_features self st a ''ghost_near'' = None"
    and "attacker_compute_features self st a ''num_invaders'' = None"
    and "attacker_compute_features self st a ''distance_to_invader'' = None"
    and "attacker_compute_features self st a ''frontier_distance'' = None"
  using assms by (simp_all add: attacker_compute_features_def Let_def)

lemma guard_unplaced_absent:
  assumes "get_agent_position st (agent_index self) = None"
  shows "guard_compute_features self st a ''distance_to_food'' = None"
    and "guard_compute_features self st a ''distance_to_ghost'' = None"
    and "guard_compute_features self st a ''ghost_near'' = None"
    and "guard_compute_features self st a ''num_invaders'' = None"
    and "guard_compute_features self st a ''distance_to_invader'' = None"
    and "guard_compute_features self st a ''frontier_distance'' = None"
  using assms by (simp_all add: guard_compute_features_def Let_def)

text \<open>
  C4. When the acting agent has no position, the attacker's features have exactly the keys
  \<^verbatim>\<open>bias\<close>, \<^verbatim>\<open>score\<close>, \<^verbatim>\<open>stopped\<close>, \<^verbatim>\<open>on_home_side\<close>, \<^verbatim>\<open>reverse\<close> and the guard's exactly
  \<^verbatim>\<open>bias\<close>, \<^verbatim>\<open>stopped\<close>, \<^verbatim>\<open>on_home_side\<close>, \<^verbatim>\<open>reverse\<close>; each of the six keys that depend
  on the position is absent from both mappings.
\<close>

theorem undefined_position_keys:
  assumes "get_agent_position st (agent_index self) = None"
  shows "dom (attacker_compute_features self st a) =
           {''bias'', ''score'', ''stopped'', ''on_home_side'', ''reverse''}
         \<and> dom (guard_compute_features self st a) =
           {''bias'', ''stopped'', ''on_home_side'', ''reverse''}
         \<and> (\<forall>k\<in>{''distance_to_food'', ''distance_to_ghost'', ''ghost_near'',
                 ''num_invaders'', ''distance_to_invader'', ''frontier_distance''}.
               attacker_compute_features self st a k = None
               \<and> guard_compute_features self st a k = None)"
proof (intro conjI)
  show "dom (attacker_compute_features self st a) =
      {''bias'', ''score'', ''stopped'', ''on_home_side'', ''reverse''}"
    using assms by (simp add: attacker_dom)
  show "dom (guard_compute_features self st a) =
      {''bias'', ''stopped'', ''on_home_side'', ''reverse''}"
    using assms by (simp add: guard_dom)
  show "\<forall>k\<in>{''distance_to_food'', ''distance_to_ghost'', ''ghost_near'',
                 ''num_invaders'', ''distance_to_invader'', ''frontier_distance''}.
               attacker_compute_features self st a k = None
               \<and> guard_compute_features self st a k = None"
    unfolding ball_simps
    by (intro conjI attacker_unplaced_absent [OF assms] guard_unplaced_absent [OF assms] TrueI)
qed

theorem undefined_position_keys_witness:
  "get_agent_position eaten (agent_index (attacker_on board_left)) = None
   \<and> get_food eaten (agent_index (attacker_on board_left)) \<noteq> []
   \<and> dom (attacker_compute_features (attacker_on board_left) eaten STOP) =
       {''bias'', ''score'', ''stopped'', ''on_home_side'', ''reverse''}
   \<and> dom (guard_compute_features (attacker_on board_left) eaten STOP) =
       {''bias'', ''stopped'', ''on_home_side'', ''reverse''}
   \<and> attacker_compute_features (attacker_on board_left) eaten STOP ''distance_to_food'' = None
   \<and> guard_compute_features (attacker_on board_left) eaten STOP ''num_invaders'' = None"
proof -
  have h: "get_agent_position eaten (agent_index (attacker_on board_left)) = None"
    by (simp add: seen_defs)
  have f: "get_food eaten (agent_index (attacker_on board_left)) \<noteq> []"
    by (simp add: seen_defs)
  note t = undefined_position_keys [OF h, of STOP]
  have b: "\<forall>k\<in>{''distance_to_food'', ''distance_to_ghost'', ''ghost_near'',
                 ''num_invaders'', ''distance_to_invader'', ''frontier_distance''}.
      attacker_compute_features (attacker_on board_left) eaten STOP k = None
      \<and> guard_compute_features (attacker_on board_left) eaten STOP k = None"
    using t by (rule conjunct2 [THEN conjunct2])
  have b1: "attacker_compute_features (attacker_on board_left) eaten STOP
      ''distance_to_food'' = None"
    using b unfolding ball_simps by (elim conjE)
  have b2: "guard_compute_features (attacker_on board_left) eaten STOP
      ''num_invaders'' = None"
    using b unfolding ball_simps by (elim conjE)
  show ?thesis
    by (intro conjI h f t [THEN conjunct1] t [THEN conjunct2, THEN conjunct1] b1 b2)
qed

lemma attacker_keys_weighted:
  "{''bias'', ''score'', ''stopped'', ''on_home_side'', ''reverse'',
    ''distance_to_food'', ''distance_to_ghost'', ''ghost_near''}
   \<subseteq> dom (weights (AttackerAgent_init idx w0 fresh))"
  by (simp add: attacker_weights_dom)

lemma guard_keys_weighted:
  "{''bias'', ''stopped'', ''on_home_side'', ''reverse'',
    ''num_invaders'', ''distance_to_invader'', ''frontier_distance''}
   \<subseteq> dom (weights (GuardAgent_init idx w0 fresh))"
  by (simp add: guard_weights_dom)

lemma attacker_dom_sub:
  "dom (attacker_compute_features self st a) \<subseteq>
     {''bias'', ''score'', ''stopped'', ''on_home_side'', ''reverse'',
      ''distance_to_food'', ''distance_to_ghost'', ''ghost_near''}"
  by (simp add: attacker_dom)

lemma guard_dom_sub:
  "dom (guard_compute_features self st a) \<subseteq>
     {''bias'', ''stopped'', ''on_home_side'', ''reverse'',
      ''num_invaders'', ''distance_to_invader'', ''frontier_distance''}"
  by (simp add: guard_dom)

lemma game_start_weights: "weights (game_start compute agent st0) = weights agent"
  by (simp add: game_start_def Let_def)

text \<open>
  C9. Every key of a feature vector of a role has a weight in the mapping that the role's
  constructor establishes: the attacker's keys are the five common ones, with
  \<^verbatim>\<open>distance_to_food\<close>, \<^verbatim>\<open>distance_to_ghost\<close> and \<^verbatim>\<open>ghost_near\<close> when it has a position;
  the guard's are the four common ones, with \<^verbatim>\<open>num_invaders\<close>, \<^verbatim>\<open>distance_to_invader\<close>
  and \<^verbatim>\<open>frontier_distance\<close> when it has a position; both sets are inside the keys of the
  role's weights, which \<^verbatim>\<open>game_start\<close> leaves as they are.
\<close>

theorem feature_keys_weighted:
  "dom (attacker_compute_features self st a) \<subseteq> dom (weights (AttackerAgent_init idx w0 fresh))
   \<and> dom (attacker_compute_features self st a) =
       (if get_agent_position st (agent_index self) = None
        then {''bias'', ''score'', ''stopped'', ''on_home_side'', ''reverse''}
        else {''bias'', ''score'', ''stopped'', ''on_home_side'', ''reverse'',
              ''distance_to_food'', ''distance_to_ghost'', ''ghost_near''})
   \<and> {''bias'', ''score'', ''stopped'', ''on_home_side'', ''reverse'',
        ''distance_to_food'', ''distance_to_ghost'', ''ghost_near''}
       \<subseteq> dom (weights (AttackerAgent_init idx w0 fresh))
   \<and> dom (guard_compute_features self st a) \<subseteq> dom (weights (GuardAgent_init idx w0 fresh))
   \<and> dom (guard_compute_features self st a) =
       (if get_agent_position st (agent_index self) = None
        then {''bias'', ''stopped'', ''on_home_side'', ''reverse''}
        else {''bias'', ''stopped'', ''on_home_side'', ''reverse'',
              ''num_invaders'', ''distance_to_invader'', ''frontier_distance''})
   \<and> {''bias'', ''stopped'', ''on_home_side'', ''reverse'',
        ''num_invaders'', ''distance_to_invader'', ''frontier_distance''}
       \<subseteq> dom (weights (GuardAgent_init idx w0 fresh))
   \<and> weights (game_start compute agent st0) = weights agent"
  by (intro conjI attacker_dom guard_dom attacker_keys_weighted guard_keys_weighted
      game_start_weights order_trans [OF attacker_dom_sub attacker_keys_weighted]
      order_trans [OF guard_dom_sub guard_keys_weighted])

section \<open>The frontier column\<close>

text \<open>
  C6. For a board of width \<open>w\<close> and an agent with an initial position,
  \<^verbatim>\<open>_build_frontier\<close> enumerates the cells of column \<open>w // 2\<close> when the initial column is
  at least \<open>w / 2\<close>, and of column \<open>w // 2 - 1\<close> otherwise: the result is the list of the
  open cells of that column, or the initial position alone when there is none. For
  width 10, initial column 2 gives column 4 and initial column 7 gives column 5.
\<close>

theorem build_frontier_column:
  assumes "initial_position self = Some ip"
  shows "(let w = width (board st);
              c = (if real_of_int (col ip) \<ge> real_of_int w / 2 then w div 2 else w div 2 - 1);
              cells = spec_open_cells (board st) c
          in build_frontier self st = (if cells = [] then [ip] else cells)
             \<and> (\<forall>p\<in>set cells. col p = c)
             \<and> c = spec_frontier_col w (col ip)
             \<and> (w = 10 \<and> col ip = 2 \<longrightarrow> c = 4)
             \<and> (w = 10 \<and> col ip = 7 \<longrightarrow> c = 5))"
  using build_frontier_placed [OF assms, of st]
  by (auto simp: Let_def spec_frontier_col_def spec_open_cells_def)

theorem build_frontier_column_witness:
  "initial_position (guard_on board_left) = Some (pos_at 1 2)
   \<and> width (board (opening_state board_left)) = 10 \<and> col (pos_at 1 2) = 2
   \<and> build_frontier (guard_on board_left) (opening_state board_left)
       = [pos_at 0 4, pos_at 2 4]
   \<and> initial_position (guard_on board_right) = Some (pos_at 1 7)
   \<and> width (board (opening_state board_right)) = 10 \<and> col (pos_at 1 7) = 7
   \<and> build_frontier (guard_on board_right) (opening_state board_right)
       = [pos_at 0 5, pos_at 1 5, pos_at 2 5]"
proof -
  have h1: "initial_position (guard_on board_left) = Some (pos_at 1 2)"
    by (simp add: agents_on board_left_def start_left_def pos_at_def)
  have h2: "initial_position (guard_on board_right) = Some (pos_at 1 7)"
    by (simp add: agents_on board_right_def start_right_def pos_at_def)
  show ?thesis
    using build_frontier_column [OF h1, of "opening_state board_left"]
      build_frontier_column [OF h2, of "opening_state board_right"] h1 h2
    by (simp add: Let_def spec_open_cells_def opening_state_def seen_state_def
        board_left_def board_right_def open_wall_def pos_at_def upt_rec)
qed

end
